theory Spec2Isabelle
  imports Complex_Main "HOL-Library.Sublist"
begin

section \<open>The systemd collector of node_exporter (collector/systemd_linux.go)\<close>

text \<open>
  The collector asks the service manager over D-Bus for the list of units and for the
  manager property \<^verbatim>\<open>SystemState\<close>, and sends gauge samples into a channel.
  The D-Bus client (\<^verbatim>\<open>github.com/coreos/go-systemd/dbus\<close>) and the metric
  library (\<^verbatim>\<open>github.com/prometheus/client_golang/prometheus\<close>) are outside the
  repository. The client is a parameter of the model: a record of the answers it gives.
  Of the metric library only the constructors the collector calls are modelled, with the
  one failure they have on the collector's calls: a wrong number of label values.
\<close>

subsection \<open>Data\<close>

text \<open>A Go \<^verbatim>\<open>error\<close> is represented by its message; \<open>None\<close> is \<^verbatim>\<open>nil\<close>.\<close>

type_synonym error = string

text \<open>
  \<^verbatim>\<open>dbus.UnitStatus\<close>: the collector reads the fields \<^verbatim>\<open>Name\<close> and
  \<^verbatim>\<open>ActiveState\<close> only. Go strings are byte sequences compared byte by byte, as
  \<open>string\<close> is here.
\<close>

record UnitStatus =
  Name :: string
  ActiveState :: string

datatype ValueType = CounterValue | GaugeValue | UntypedValue

text \<open>\<^verbatim>\<open>prometheus.Desc\<close>: name, help text and the names of the variable labels.\<close>

record Desc =
  fqName :: string
  helpText :: string
  variableLabels :: "string list"

text \<open>A constant metric: its descriptor, its type, its \<^verbatim>\<open>float64\<close> value and label values.\<close>

record Metric =
  desc :: Desc
  valType :: ValueType
  val :: real
  labelValues :: "string list"

record systemdCollector =
  unitDesc :: Desc
  systemRunningDesc :: Desc

text \<open>
  What is observable of the D-Bus client: each call of \<^verbatim>\<open>dbus.New()\<close> takes the next
  connection number; the events record what was done on which connection.
\<close>

datatype dbus_event =
    NewFailed nat
  | Opened nat
  | ListUnitsCalled nat
  | GetManagerPropertyCalled nat string
  | Closed nat

text \<open>
  The answers of the service manager. \<open>New_result d k\<close> is the error of the \<open>k\<close>-th call of
  \<^verbatim>\<open>dbus.New()\<close> (\<open>None\<close>: the connection \<open>k\<close> is open), \<open>ListUnits_result d k\<close>
  and \<open>GetManagerProperty_result d k name\<close> are the pairs (value, error) that the queries
  return on connection \<open>k\<close>.
\<close>

record dbus =
  New_result :: "nat \<Rightarrow> error option"
  ListUnits_result :: "nat \<Rightarrow> UnitStatus list \<times> error option"
  GetManagerProperty_result :: "nat \<Rightarrow> string \<Rightarrow> string \<times> error option"

text \<open>
  The state the program runs in: the collector object the receiver \<^verbatim>\<open>c\<close> points to,
  the metrics sent into the channel \<^verbatim>\<open>ch\<close> so far (oldest first), the D-Bus events so
  far, and the number of the next connection.
\<close>

record world =
  collector :: systemdCollector
  ch :: "Metric list"
  dbus_log :: "dbus_event list"
  next_conn :: nat

text \<open>A call either returns a value or panics.\<close>

datatype 'a exit = Panic | Return 'a

subsection \<open>The metric library\<close>

text \<open>
  \<^verbatim>\<open>prometheus.BuildFQName\<close> joins the non-empty parts with an underscore; an empty
  name gives the empty string.
\<close>

definition BuildFQName :: "string \<Rightarrow> string \<Rightarrow> string \<Rightarrow> string" where
  "BuildFQName namespace subsystem name =
     (if name = [] then []
      else if namespace \<noteq> [] \<and> subsystem \<noteq> [] then namespace @ ''_'' @ subsystem @ ''_'' @ name
      else if namespace \<noteq> [] then namespace @ ''_'' @ name
      else if subsystem \<noteq> [] then subsystem @ ''_'' @ name
      else name)"

definition NewDesc :: "string \<Rightarrow> string \<Rightarrow> string list \<Rightarrow> Desc" where
  "NewDesc fq h labels = \<lparr>fqName = fq, helpText = h, variableLabels = labels\<rparr>"

text \<open>
  \<^verbatim>\<open>prometheus.MustNewConstMetric\<close> panics when the number of label values is not the
  number of variable labels of the descriptor (\<open>None\<close> is the panic).
\<close>

definition MustNewConstMetric :: "Desc \<Rightarrow> ValueType \<Rightarrow> real \<Rightarrow> string list \<Rightarrow> Metric option" where
  "MustNewConstMetric d vt v lvs =
     (if length (variableLabels d) \<noteq> length lvs then None
      else Some \<lparr>desc = d, valType = vt, val = v, labelValues = lvs\<rparr>)"

text \<open>The channel send \<^verbatim>\<open>ch <- m\<close>.\<close>

definition send :: "Metric \<Rightarrow> world \<Rightarrow> world" where
  "send m w = w\<lparr>ch := ch w @ [m]\<rparr>"

subsection \<open>The D-Bus client\<close>

definition dbus_New :: "dbus \<Rightarrow> world \<Rightarrow> (nat \<times> error option) \<times> world" where
  "dbus_New d w =
     (let k = next_conn w in
      case New_result d k of
        Some e \<Rightarrow> ((k, Some e), w\<lparr>dbus_log := dbus_log w @ [NewFailed k], next_conn := Suc k\<rparr>)
      | None \<Rightarrow> ((k, None), w\<lparr>dbus_log := dbus_log w @ [Opened k], next_conn := Suc k\<rparr>))"

definition conn_ListUnits :: "dbus \<Rightarrow> nat \<Rightarrow> world \<Rightarrow> (UnitStatus list \<times> error option) \<times> world" where
  "conn_ListUnits d conn w =
     (ListUnits_result d conn, w\<lparr>dbus_log := dbus_log w @ [ListUnitsCalled conn]\<rparr>)"

definition conn_GetManagerProperty ::
  "dbus \<Rightarrow> nat \<Rightarrow> string \<Rightarrow> world \<Rightarrow> (string \<times> error option) \<times> world" where
  "conn_GetManagerProperty d conn name w =
     (GetManagerProperty_result d conn name,
      w\<lparr>dbus_log := dbus_log w @ [GetManagerPropertyCalled conn name]\<rparr>)"

definition conn_Close :: "nat \<Rightarrow> world \<Rightarrow> world" where
  "conn_Close conn w = w\<lparr>dbus_log := dbus_log w @ [Closed conn]\<rparr>"

subsection \<open>The collector\<close>

definition unitStatesName :: "string list" where
  "unitStatesName = [''active'', ''activating'', ''deactivating'', ''inactive'', ''failed'']"

text \<open>
  \<^verbatim>\<open>NewSystemdCollector\<close>. The constant \<^verbatim>\<open>Namespace\<close> of the package is declared
  in another file and is a parameter here. The error returned is always \<^verbatim>\<open>nil\<close>.
\<close>

definition NewSystemdCollector :: "string \<Rightarrow> systemdCollector \<times> error option" where
  "NewSystemdCollector Namespace =
     (let subsystem = ''systemd'';
          unitDesc = NewDesc (BuildFQName Namespace subsystem ''unit_state'')
                       ''Systemd unit'' [''name'', ''state''];
          systemRunningDesc = NewDesc (BuildFQName Namespace subsystem ''system_running'')
                       ''Whether the system is operational (see 'systemctl is-system-running')'' []
      in (\<lparr>unitDesc = unitDesc, systemRunningDesc = systemRunningDesc\<rparr>, None))"

text \<open>The literal \<^verbatim>\<open>`"running"`\<close>: the word between two double-quote characters.\<close>

definition quoted_running :: string where
  "quoted_running = CHR 0x22 # ''running'' @ [CHR 0x22]"

text \<open>\<^verbatim>\<open>listUnits\<close>: open, query, close. A \<^verbatim>\<open>nil\<close> slice is the empty list.\<close>

definition listUnits :: "dbus \<Rightarrow> world \<Rightarrow> (UnitStatus list \<times> error option) \<times> world" where
  "listUnits d w =
     (case dbus_New d w of
        ((conn, Some e), w1) \<Rightarrow> (([], Some (''couldn't get dbus connection: '' @ e)), w1)
      | ((conn, None), w1) \<Rightarrow>
          (case conn_ListUnits d conn w1 of
             ((units, err), w2) \<Rightarrow> ((units, err), conn_Close conn w2)))"

definition getSystemState :: "dbus \<Rightarrow> world \<Rightarrow> (string \<times> error option) \<times> world" where
  "getSystemState d w =
     (case dbus_New d w of
        ((conn, Some e), w1) \<Rightarrow> (([], Some (''couldn't get dbus connection: '' @ e)), w1)
      | ((conn, None), w1) \<Rightarrow>
          (case conn_GetManagerProperty d conn ''SystemState'' w1 of
             ((state, err), w2) \<Rightarrow> ((state, err), conn_Close conn w2)))"

text \<open>The inner loop of \<^verbatim>\<open>collectUnitStatusMetrics\<close>, over the state names left.\<close>

fun collectUnitStates :: "UnitStatus \<Rightarrow> string list \<Rightarrow> world \<Rightarrow> unit exit \<times> world" where
  "collectUnitStates unit [] w = (Return (), w)"
| "collectUnitStates unit (stateName # rest) w =
     (let isActive = (if stateName = ActiveState unit then 1 else 0) in
      case MustNewConstMetric (unitDesc (collector w)) GaugeValue isActive
             [Name unit, stateName] of
        None \<Rightarrow> (Panic, w)
      | Some m \<Rightarrow> collectUnitStates unit rest (send m w))"

text \<open>\<^verbatim>\<open>collectUnitStatusMetrics\<close>: the outer loop, over the units.\<close>

fun collectUnitStatusMetrics :: "UnitStatus list \<Rightarrow> world \<Rightarrow> unit exit \<times> world" where
  "collectUnitStatusMetrics [] w = (Return (), w)"
| "collectUnitStatusMetrics (unit # units) w =
     (case collectUnitStates unit unitStatesName w of
        (Panic, w1) \<Rightarrow> (Panic, w1)
      | (Return _, w1) \<Rightarrow> collectUnitStatusMetrics units w1)"

definition collectSystemState :: "string \<Rightarrow> world \<Rightarrow> unit exit \<times> world" where
  "collectSystemState systemState w =
     (let isSystemRunning = (if systemState = quoted_running then 1 else 0) in
      case MustNewConstMetric (systemRunningDesc (collector w)) GaugeValue isSystemRunning [] of
        None \<Rightarrow> (Panic, w)
      | Some m \<Rightarrow> (Return (), send m w))"

text \<open>\<^verbatim>\<open>Update\<close>: the value returned is the error (\<open>None\<close> is \<^verbatim>\<open>nil\<close>).\<close>

definition Update :: "dbus \<Rightarrow> world \<Rightarrow> error option exit \<times> world" where
  "Update d w =
     (case listUnits d w of
        ((units, Some e), w1) \<Rightarrow> (Return (Some (''couldn't get units states: '' @ e)), w1)
      | ((units, None), w1) \<Rightarrow>
          (case collectUnitStatusMetrics units w1 of
             (Panic, w2) \<Rightarrow> (Panic, w2)
           | (Return _, w2) \<Rightarrow>
               (case getSystemState d w2 of
                  ((systemState, Some e), w3) \<Rightarrow>
                    (Return (Some (''couldn't get system state: '' @ e)), w3)
                | ((systemState, None), w3) \<Rightarrow>
                    (case collectSystemState systemState w3 of
                       (Panic, w4) \<Rightarrow> (Panic, w4)
                     | (Return _, w4) \<Rightarrow> (Return None, w4)))))"

subsection \<open>Vocabulary of the properties\<close>

text \<open>
  The metric that the collector builds for a unit and a state name, and the one it builds
  for the system state.
\<close>

definition unitSample :: "systemdCollector \<Rightarrow> UnitStatus \<Rightarrow> string \<Rightarrow> Metric" where
  "unitSample c unit stateName =
     \<lparr>desc = unitDesc c, valType = GaugeValue,
      val = (if stateName = ActiveState unit then 1 else 0),
      labelValues = [Name unit, stateName]\<rparr>"

definition systemSample :: "systemdCollector \<Rightarrow> string \<Rightarrow> Metric" where
  "systemSample c systemState =
     \<lparr>desc = systemRunningDesc c, valType = GaugeValue,
      val = (if systemState = quoted_running then 1 else 0),
      labelValues = []\<rparr>"

text \<open>
  The metrics of a whole list of units: unit after unit, and for each unit state name after
  state name.
\<close>

definition unitSamples :: "systemdCollector \<Rightarrow> UnitStatus list \<Rightarrow> Metric list" where
  "unitSamples c units = concat (map (\<lambda>unit. map (unitSample c unit) unitStatesName) units)"

text \<open>
  A collector whose descriptors have the numbers of variable labels that
  \<^verbatim>\<open>NewSystemdCollector\<close> gives them.
\<close>

definition wellFormed :: "systemdCollector \<Rightarrow> bool" where
  "wellFormed c \<longleftrightarrow>
     length (variableLabels (unitDesc c)) = 2 \<and> variableLabels (systemRunningDesc c) = []"

text \<open>
  What a run sent into the channel: the metrics of \<open>w'\<close> behind those that \<open>w\<close>
  already held, all of them or those of one of the two families. The \<open>i\<close>-th block
  of a list of unit-state metrics is the block of the \<open>i\<close>-th unit.
\<close>

definition emitted :: "world \<Rightarrow> world \<Rightarrow> Metric list" where
  "emitted w w' = drop (length (ch w)) (ch w')"

definition emittedUnitStates :: "world \<Rightarrow> world \<Rightarrow> Metric list" where
  "emittedUnitStates w w' = filter (\<lambda>m. desc m = unitDesc (collector w)) (emitted w w')"

definition emittedSystemRunning :: "world \<Rightarrow> world \<Rightarrow> Metric list" where
  "emittedSystemRunning w w' = filter (\<lambda>m. desc m = systemRunningDesc (collector w)) (emitted w w')"

definition samplesOfUnit :: "nat \<Rightarrow> Metric list \<Rightarrow> Metric list" where
  "samplesOfUnit i ms = take (length unitStatesName) (drop (length unitStatesName * i) ms)"

text \<open>
  The D-Bus events of a run. A list of events is \<open>scoped\<close> when each connection that
  is opened carries one query and is closed right after it; \<open>queriedOn\<close> lists the
  connections of the queries, in order. \<open>runEvents k\<close> are the four courses a run can
  take when the next connection number is \<open>k\<close>.
\<close>

definition newEvents :: "world \<Rightarrow> world \<Rightarrow> dbus_event list" where
  "newEvents w w' = drop (length (dbus_log w)) (dbus_log w')"

fun scoped :: "dbus_event list \<Rightarrow> bool" where
  "scoped [] = True"
| "scoped (NewFailed k # es) = scoped es"
| "scoped (Opened k # ListUnitsCalled k1 # Closed k2 # es) = (k1 = k \<and> k2 = k \<and> scoped es)"
| "scoped (Opened k # GetManagerPropertyCalled k1 name # Closed k2 # es) =
     (k1 = k \<and> k2 = k \<and> scoped es)"
| "scoped es = False"

fun queriedOn :: "dbus_event list \<Rightarrow> nat list" where
  "queriedOn [] = []"
| "queriedOn (ListUnitsCalled k # es) = k # queriedOn es"
| "queriedOn (GetManagerPropertyCalled k name # es) = k # queriedOn es"
| "queriedOn (e # es) = queriedOn es"

definition runEvents :: "nat \<Rightarrow> dbus_event list list" where
  "runEvents k =
     [[NewFailed k],
      [Opened k, ListUnitsCalled k, Closed k],
      [Opened k, ListUnitsCalled k, Closed k, NewFailed (Suc k)],
      [Opened k, ListUnitsCalled k, Closed k,
       Opened (Suc k), GetManagerPropertyCalled (Suc k) ''SystemState'', Closed (Suc k)]]"





subsection \<open>Example inputs\<close>

text \<open>
  A client that answers the first \<^verbatim>\<open>dbus.New()\<close> with \<open>open1\<close> and the later ones
  with \<open>open2\<close>, and the two queries with \<open>listed\<close> and \<open>prop\<close>; a world in which
  nothing has happened yet, and one in which something has.
\<close>

definition respond ::
  "error option \<Rightarrow> UnitStatus list \<times> error option \<Rightarrow> error option \<Rightarrow> string \<times> error option \<Rightarrow> dbus" where
  "respond open1 listed open2 prop =
     \<lparr>New_result = (\<lambda>k. if k = 0 then open1 else open2),
      ListUnits_result = (\<lambda>k. listed),
      GetManagerProperty_result =
        (\<lambda>k name. if name = ''SystemState'' then prop else ([], Some ''no such property''))\<rparr>"

definition freshWorld :: world where
  "freshWorld = \<lparr>collector = fst (NewSystemdCollector ''node''), ch = [], dbus_log = [], next_conn = 0\<rparr>"

definition laterWorld :: world where
  "laterWorld = freshWorld\<lparr>ch := [\<lparr>desc = systemRunningDesc (collector freshWorld),
                                     valType = GaugeValue, val = 0, labelValues = []\<rparr>],
                             dbus_log := [NewFailed 0], next_conn := 1\<rparr>"

definition exampleUnits :: "UnitStatus list" where
  "exampleUnits = [\<lparr>Name = ''sshd.service'', ActiveState = ''active''\<rparr>,
                   \<lparr>Name = ''cron.service'', ActiveState = ''failed''\<rparr>]"

definition oddUnits :: "UnitStatus list" where
  "oddUnits = [\<lparr>Name = ''a.service'', ActiveState = ''Active''\<rparr>,
               \<lparr>Name = ''b.service'', ActiveState = ''active ''\<rparr>,
               \<lparr>Name = ''c.service'', ActiveState = ''reloading''\<rparr>]"

definition healthyClient :: dbus where
  "healthyClient = respond None (exampleUnits, None) None (quoted_running, None)"

definition oddClient :: dbus where
  "oddClient = respond None (oddUnits, None) None (''running'', None)"

definition noBusClient :: dbus where
  "noBusClient = respond (Some ''dial unix /var/run/dbus/system_bus_socket: no such file'')
                   ([], None) None (quoted_running, None)"

definition listFailsClient :: dbus where
  "listFailsClient = respond None ([], Some ''Access denied'') None (quoted_running, None)"

definition stateFailsClient :: dbus where
  "stateFailsClient = respond None (exampleUnits, None) None ([], Some ''Access denied'')"

definition emptyClient :: dbus where
  "emptyClient = respond None ([], None) None (quoted_running, None)"

section \<open>Lemmas\<close>

subsection \<open>The collector that the constructor builds\<close>

lemma constructed_labels:
  "length (variableLabels (unitDesc (fst (NewSystemdCollector ns)))) = 2"
  "variableLabels (systemRunningDesc (fst (NewSystemdCollector ns))) = []"
  by (simp_all add: NewSystemdCollector_def NewDesc_def Let_def)

lemma constructed_descs_differ:
  "unitDesc (fst (NewSystemdCollector ns)) \<noteq> systemRunningDesc (fst (NewSystemdCollector ns))"
  by (simp add: NewSystemdCollector_def NewDesc_def Let_def)

lemma constructed_wellFormed: "wellFormed (fst (NewSystemdCollector ns))"
  by (simp add: wellFormed_def constructed_labels)

subsection \<open>The loops\<close>

lemma collectUnitStates_run:
  assumes "length (variableLabels (unitDesc (collector w))) = 2"
  shows "collectUnitStates unit names w =
           (Return (), w\<lparr>ch := ch w @ map (unitSample (collector w) unit) names\<rparr>)"
  using assms
proof (induction names arbitrary: w)
  case Nil
  then show ?case by simp
next
  case (Cons stateName rest)
  let ?m = "unitSample (collector w) unit stateName"
  have mk: "MustNewConstMetric (unitDesc (collector w)) GaugeValue
              (if stateName = ActiveState unit then 1 else 0) [Name unit, stateName] = Some ?m"
    using Cons.prems by (simp add: MustNewConstMetric_def unitSample_def)
  have "collectUnitStates unit (stateName # rest) w = collectUnitStates unit rest (send ?m w)"
    using mk by (simp del: collectUnitStates.simps(2) add: collectUnitStates.simps(2) [of unit stateName rest w] Let_def)
  also have "\<dots> = (Return (), (send ?m w)\<lparr>ch := ch (send ?m w) @ map (unitSample (collector (send ?m w)) unit) rest\<rparr>)"
    using Cons.prems by (intro Cons.IH) (simp add: send_def)
  finally show ?case by (simp add: send_def)
qed

lemma collectUnitStatusMetrics_run:
  assumes "length (variableLabels (unitDesc (collector w))) = 2"
  shows "collectUnitStatusMetrics units w =
           (Return (), w\<lparr>ch := ch w @ concat (map (\<lambda>unit. map (unitSample (collector w) unit) unitStatesName) units)\<rparr>)"
  using assms
proof (induction units arbitrary: w)
  case Nil
  then show ?case by simp
next
  case (Cons unit units)
  let ?w1 = "w\<lparr>ch := ch w @ map (unitSample (collector w) unit) unitStatesName\<rparr>"
  have "collectUnitStatusMetrics (unit # units) w = collectUnitStatusMetrics units ?w1"
    by (simp add: collectUnitStates_run [OF Cons.prems])
  also have "\<dots> = (Return (), ?w1\<lparr>ch := ch ?w1 @ concat (map (\<lambda>unit. map (unitSample (collector ?w1) unit) unitStatesName) units)\<rparr>)"
    using Cons.prems by (intro Cons.IH) simp
  finally show ?case by simp
qed

lemma collectSystemState_run:
  assumes "variableLabels (systemRunningDesc (collector w)) = []"
  shows "collectSystemState systemState w =
           (Return (), w\<lparr>ch := ch w @ [systemSample (collector w) systemState]\<rparr>)"
  using assms by (simp add: collectSystemState_def MustNewConstMetric_def systemSample_def send_def Let_def)

subsection \<open>The two queries\<close>

lemma listUnits_open_fails:
  assumes "New_result d (next_conn w) = Some e"
  shows "listUnits d w =
           (([], Some (''couldn't get dbus connection: '' @ e)),
            w\<lparr>dbus_log := dbus_log w @ [NewFailed (next_conn w)], next_conn := Suc (next_conn w)\<rparr>)"
  using assms by (simp add: listUnits_def dbus_New_def Let_def)

lemma listUnits_opened:
  assumes "New_result d (next_conn w) = None"
  shows "listUnits d w =
           (ListUnits_result d (next_conn w),
            w\<lparr>dbus_log := dbus_log w @ [Opened (next_conn w), ListUnitsCalled (next_conn w),
                                         Closed (next_conn w)],
              next_conn := Suc (next_conn w)\<rparr>)"
  using assms
  by (cases "ListUnits_result d (next_conn w)")
     (simp add: listUnits_def dbus_New_def conn_ListUnits_def conn_Close_def Let_def)

lemma getSystemState_open_fails:
  assumes "New_result d (next_conn w) = Some e"
  shows "getSystemState d w =
           (([], Some (''couldn't get dbus connection: '' @ e)),
            w\<lparr>dbus_log := dbus_log w @ [NewFailed (next_conn w)], next_conn := Suc (next_conn w)\<rparr>)"
  using assms by (simp add: getSystemState_def dbus_New_def Let_def)

lemma getSystemState_opened:
  assumes "New_result d (next_conn w) = None"
  shows "getSystemState d w =
           (GetManagerProperty_result d (next_conn w) ''SystemState'',
            w\<lparr>dbus_log := dbus_log w @ [Opened (next_conn w),
                                         GetManagerPropertyCalled (next_conn w) ''SystemState'',
                                         Closed (next_conn w)],
              next_conn := Suc (next_conn w)\<rparr>)"
  using assms
  by (cases "GetManagerProperty_result d (next_conn w) ''SystemState''")
     (simp add: getSystemState_def dbus_New_def conn_GetManagerProperty_def conn_Close_def Let_def)

subsection \<open>The five courses of a run\<close>

lemma Update_units_open_fails:
  assumes "New_result d (next_conn w) = Some e"
  shows "Update d w =
           (Return (Some (''couldn't get units states: couldn't get dbus connection: '' @ e)),
            w\<lparr>dbus_log := dbus_log w @ [NewFailed (next_conn w)], next_conn := Suc (next_conn w)\<rparr>)"
  by (simp add: Update_def listUnits_open_fails [OF assms])

lemma Update_units_query_fails:
  assumes "New_result d (next_conn w) = None"
    and "ListUnits_result d (next_conn w) = (units, Some e)"
  shows "Update d w =
           (Return (Some (''couldn't get units states: '' @ e)),
            w\<lparr>dbus_log := dbus_log w @ [Opened (next_conn w), ListUnitsCalled (next_conn w),
                                         Closed (next_conn w)],
              next_conn := Suc (next_conn w)\<rparr>)"
  by (simp add: Update_def listUnits_opened [OF assms(1)] assms(2))

lemma Update_state_open_fails:
  assumes "wellFormed (collector w)"
    and "New_result d (next_conn w) = None"
    and "ListUnits_result d (next_conn w) = (units, None)"
    and "New_result d (Suc (next_conn w)) = Some e"
  shows "Update d w =
           (Return (Some (''couldn't get system state: couldn't get dbus connection: '' @ e)),
            w\<lparr>ch := ch w @ unitSamples (collector w) units,
              dbus_log := dbus_log w @ [Opened (next_conn w), ListUnitsCalled (next_conn w),
                                         Closed (next_conn w), NewFailed (Suc (next_conn w))],
              next_conn := Suc (Suc (next_conn w))\<rparr>)"
proof -
  let ?w1 = "w\<lparr>dbus_log := dbus_log w @ [Opened (next_conn w), ListUnitsCalled (next_conn w),
                                         Closed (next_conn w)],
              next_conn := Suc (next_conn w)\<rparr>"
  let ?w2 = "?w1\<lparr>ch := ch ?w1 @ unitSamples (collector ?w1) units\<rparr>"
  have l: "listUnits d w = ((units, None), ?w1)"
    by (simp add: listUnits_opened [OF assms(2)] assms(3))
  have c: "collectUnitStatusMetrics units ?w1 = (Return (), ?w2)"
    unfolding unitSamples_def using assms(1)
    by (intro collectUnitStatusMetrics_run) (simp add: wellFormed_def)
  have g: "getSystemState d ?w2 =
             (([], Some (''couldn't get dbus connection: '' @ e)),
              ?w2\<lparr>dbus_log := dbus_log ?w2 @ [NewFailed (next_conn ?w2)],
                   next_conn := Suc (next_conn ?w2)\<rparr>)"
    using assms(4) by (intro getSystemState_open_fails) simp
  have "Update d w = (Return (Some (''couldn't get system state: '' @ (''couldn't get dbus connection: '' @ e))), ?w2\<lparr>dbus_log := dbus_log ?w2 @ [NewFailed (next_conn ?w2)],
                   next_conn := Suc (next_conn ?w2)\<rparr>)"
    by (simp only: Update_def l c g prod.case option.case exit.case)
  then show ?thesis
    by simp
qed

lemma Update_state_query_fails:
  assumes "wellFormed (collector w)"
    and "New_result d (next_conn w) = None"
    and "ListUnits_result d (next_conn w) = (units, None)"
    and "New_result d (Suc (next_conn w)) = None"
    and "GetManagerProperty_result d (Suc (next_conn w)) ''SystemState'' = (systemState, Some e)"
  shows "Update d w =
           (Return (Some (''couldn't get system state: '' @ e)),
            w\<lparr>ch := ch w @ unitSamples (collector w) units,
              dbus_log := dbus_log w @ [Opened (next_conn w), ListUnitsCalled (next_conn w),
                                         Closed (next_conn w), Opened (Suc (next_conn w)),
                                         GetManagerPropertyCalled (Suc (next_conn w)) ''SystemState'',
                                         Closed (Suc (next_conn w))],
              next_conn := Suc (Suc (next_conn w))\<rparr>)"
proof -
  let ?w1 = "w\<lparr>dbus_log := dbus_log w @ [Opened (next_conn w), ListUnitsCalled (next_conn w),
                                         Closed (next_conn w)],
              next_conn := Suc (next_conn w)\<rparr>"
  let ?w2 = "?w1\<lparr>ch := ch ?w1 @ unitSamples (collector ?w1) units\<rparr>"
  have l: "listUnits d w = ((units, None), ?w1)"
    by (simp add: listUnits_opened [OF assms(2)] assms(3))
  have c: "collectUnitStatusMetrics units ?w1 = (Return (), ?w2)"
    unfolding unitSamples_def using assms(1)
    by (intro collectUnitStatusMetrics_run) (simp add: wellFormed_def)
  have n: "New_result d (next_conn ?w2) = None"
    using assms(4) by simp
  let ?w3 = "?w2\<lparr>dbus_log := dbus_log ?w2 @ [Opened (next_conn ?w2),
                                         GetManagerPropertyCalled (next_conn ?w2) ''SystemState'',
                                         Closed (next_conn ?w2)],
                   next_conn := Suc (next_conn ?w2)\<rparr>"
  have p: "GetManagerProperty_result d (next_conn ?w2) ''SystemState'' = (systemState, Some e)"
    using assms(5) by simp
  have g: "getSystemState d ?w2 = ((systemState, Some e), ?w3)"
    by (simp only: getSystemState_opened [OF n] p)
  have "Update d w = (Return (Some (''couldn't get system state: '' @ e)), ?w3)"
    by (simp only: Update_def l c g prod.case option.case exit.case)
  then show ?thesis
    by simp
qed

lemma Update_succeeds:
  assumes "wellFormed (collector w)"
    and "New_result d (next_conn w) = None"
    and "ListUnits_result d (next_conn w) = (units, None)"
    and "New_result d (Suc (next_conn w)) = None"
    and "GetManagerProperty_result d (Suc (next_conn w)) ''SystemState'' = (systemState, None)"
  shows "Update d w =
           (Return None,
            w\<lparr>ch := ch w @ unitSamples (collector w) units @ [systemSample (collector w) systemState],
              dbus_log := dbus_log w @ [Opened (next_conn w), ListUnitsCalled (next_conn w),
                                         Closed (next_conn w), Opened (Suc (next_conn w)),
                                         GetManagerPropertyCalled (Suc (next_conn w)) ''SystemState'',
                                         Closed (Suc (next_conn w))],
              next_conn := Suc (Suc (next_conn w))\<rparr>)"
proof -
  let ?w1 = "w\<lparr>dbus_log := dbus_log w @ [Opened (next_conn w), ListUnitsCalled (next_conn w),
                                         Closed (next_conn w)],
              next_conn := Suc (next_conn w)\<rparr>"
  let ?w2 = "?w1\<lparr>ch := ch ?w1 @ unitSamples (collector ?w1) units\<rparr>"
  let ?w3 = "?w2\<lparr>dbus_log := dbus_log ?w2 @ [Opened (next_conn ?w2),
                                         GetManagerPropertyCalled (next_conn ?w2) ''SystemState'',
                                         Closed (next_conn ?w2)],
                   next_conn := Suc (next_conn ?w2)\<rparr>"
  have l: "listUnits d w = ((units, None), ?w1)"
    by (simp add: listUnits_opened [OF assms(2)] assms(3))
  have c: "collectUnitStatusMetrics units ?w1 = (Return (), ?w2)"
    unfolding unitSamples_def using assms(1)
    by (intro collectUnitStatusMetrics_run) (simp add: wellFormed_def)
  have n: "New_result d (next_conn ?w2) = None"
    using assms(4) by simp
  have p: "GetManagerProperty_result d (next_conn ?w2) ''SystemState'' = (systemState, None)"
    using assms(5) by simp
  have g: "getSystemState d ?w2 = ((systemState, None), ?w3)"
    by (simp only: getSystemState_opened [OF n] p)
  have s: "collectSystemState systemState ?w3 =
             (Return (), ?w3\<lparr>ch := ch ?w3 @ [systemSample (collector ?w3) systemState]\<rparr>)"
    using assms(1) by (intro collectSystemState_run) (simp add: wellFormed_def)
  have "Update d w =
          (Return None, ?w3\<lparr>ch := ch ?w3 @ [systemSample (collector ?w3) systemState]\<rparr>)"
    by (simp only: Update_def l c g s prod.case option.case exit.case)
  then show ?thesis
    by simp
qed

text \<open>
  The value returned and the metrics sent, as a function of the collector and of the four
  answers of the client.
\<close>

lemma emitted_append: "ch w' = ch w @ ms \<Longrightarrow> emitted w w' = ms"
  by (simp add: emitted_def)

lemma Update_outcome:
  assumes "wellFormed (collector w)"
  shows "(fst (Update d w), emitted w (snd (Update d w))) =
     (case New_result d (next_conn w) of
        Some e \<Rightarrow>
          (Return (Some (''couldn't get units states: couldn't get dbus connection: '' @ e)), [])
      | None \<Rightarrow>
          (case ListUnits_result d (next_conn w) of
             (units, Some e) \<Rightarrow> (Return (Some (''couldn't get units states: '' @ e)), [])
           | (units, None) \<Rightarrow>
               (case New_result d (Suc (next_conn w)) of
                  Some e \<Rightarrow>
                    (Return (Some (''couldn't get system state: couldn't get dbus connection: '' @ e)),
                     unitSamples (collector w) units)
                | None \<Rightarrow>
                    (case GetManagerProperty_result d (Suc (next_conn w)) ''SystemState'' of
                       (systemState, Some e) \<Rightarrow>
                         (Return (Some (''couldn't get system state: '' @ e)),
                          unitSamples (collector w) units)
                     | (systemState, None) \<Rightarrow>
                         (Return None,
                          unitSamples (collector w) units @
                          [systemSample (collector w) systemState])))))"
proof (cases "New_result d (next_conn w)")
  case (Some e)
  show ?thesis
    by (simp add: Some Update_units_open_fails [OF Some] emitted_def)
next
  case n1: None
  obtain units err where lu: "ListUnits_result d (next_conn w) = (units, err)"
    by (cases "ListUnits_result d (next_conn w)")
  show ?thesis
  proof (cases err)
    case (Some e)
    with lu have lu': "ListUnits_result d (next_conn w) = (units, Some e)" by simp
    show ?thesis
      by (simp add: n1 lu' Update_units_query_fails [OF n1 lu'] emitted_def)
  next
    case None
    with lu have lu': "ListUnits_result d (next_conn w) = (units, None)" by simp
    show ?thesis
    proof (cases "New_result d (Suc (next_conn w))")
      case (Some e)
      show ?thesis
        by (simp add: n1 lu' Some Update_state_open_fails [OF assms n1 lu' Some] emitted_def)
    next
      case n2: None
      obtain st err2 where gp: "GetManagerProperty_result d (Suc (next_conn w)) ''SystemState'' = (st, err2)"
        by (cases "GetManagerProperty_result d (Suc (next_conn w)) ''SystemState''")
      show ?thesis
      proof (cases err2)
        case (Some e)
        with gp have gp': "GetManagerProperty_result d (Suc (next_conn w)) ''SystemState'' = (st, Some e)"
          by simp
        show ?thesis
          by (simp add: n1 lu' n2 gp' Update_state_query_fails [OF assms n1 lu' n2 gp'] emitted_def)
      next
        case None
        with gp have gp': "GetManagerProperty_result d (Suc (next_conn w)) ''SystemState'' = (st, None)"
          by simp
        show ?thesis
          by (simp add: n1 lu' n2 gp' Update_succeeds [OF assms n1 lu' n2 gp'] emitted_def)
      qed
    qed
  qed
qed

lemma Update_outcome_same:
  assumes "wellFormed (collector w1)"
    and "collector w2 = collector w1"
    and "New_result d1 (next_conn w1) = New_result d2 (next_conn w2)"
    and "ListUnits_result d1 (next_conn w1) = ListUnits_result d2 (next_conn w2)"
    and "New_result d1 (Suc (next_conn w1)) = New_result d2 (Suc (next_conn w2))"
    and "GetManagerProperty_result d1 (Suc (next_conn w1)) ''SystemState'' =
         GetManagerProperty_result d2 (Suc (next_conn w2)) ''SystemState''"
  shows "(fst (Update d1 w1), emitted w1 (snd (Update d1 w1))) =
         (fst (Update d2 w2), emitted w2 (snd (Update d2 w2)))"
proof -
  have wf2: "wellFormed (collector w2)"
    using assms(1,2) by simp
  show ?thesis
    unfolding Update_outcome [OF assms(1)] Update_outcome [OF wf2]
    by (simp only: assms(2-6))
qed

text \<open>
What the channel holds after a run whose listing succeeded.
\<close>

lemma Update_listed:
  assumes "wellFormed (collector w)"
    and "New_result d (next_conn w) = None"
    and "ListUnits_result d (next_conn w) = (units, None)"
  shows "\<exists>rest. ch (snd (Update d w)) = ch w @ unitSamples (collector w) units @ rest \<and>
           (rest = [] \<or> (\<exists>st. rest = [systemSample (collector w) st]))"
proof (cases "New_result d (Suc (next_conn w))")
  case (Some e)
  show ?thesis
    by (simp add: Update_state_open_fails [OF assms Some])
next
  case None
  obtain st err where p: "GetManagerProperty_result d (Suc (next_conn w)) ''SystemState'' = (st, err)"
    by (cases "GetManagerProperty_result d (Suc (next_conn w)) ''SystemState''")
  show ?thesis
  proof (cases err)
    case None
    with p have "GetManagerProperty_result d (Suc (next_conn w)) ''SystemState'' = (st, None)"
      by simp
    from Update_succeeds [OF assms \<open>New_result d (Suc (next_conn w)) = None\<close> this]
    show ?thesis by auto
  next
    case (Some e)
    with p have "GetManagerProperty_result d (Suc (next_conn w)) ''SystemState'' = (st, Some e)"
      by simp
    from Update_state_query_fails [OF assms \<open>New_result d (Suc (next_conn w)) = None\<close> this]
    show ?thesis by simp
  qed
qed

subsection \<open>Lists of unit-state metrics\<close>

lemma block_of_concat:
  assumes "\<forall>x\<in>set xs. length (f x) = n" and "i < length xs"
  shows "take n (drop (n * i) (concat (map f xs))) = f (xs ! i)"
  using assms
proof (induction xs arbitrary: i)
  case Nil
  then show ?case by simp
next
  case (Cons x xs)
  show ?case
  proof (cases i)
    case 0
    with Cons.prems show ?thesis by simp
  next
    case (Suc j)
    have "drop (n * Suc j) (f x @ concat (map f xs)) = drop (n * j) (concat (map f xs))"
      using Cons.prems(1) by simp
    with Suc Cons show ?thesis by simp
  qed
qed

lemma samplesOfUnit_unitSamples:
  assumes "i < length units"
  shows "samplesOfUnit i (unitSamples c units) = map (unitSample c (units ! i)) unitStatesName"
  unfolding samplesOfUnit_def unitSamples_def
  using assms by (intro block_of_concat) simp_all

lemma length_unitSamples: "length (unitSamples c units) = 5 * length units"
  by (induction units) (simp_all add: unitSamples_def unitStatesName_def)

lemma desc_unitSamples: "m \<in> set (unitSamples c units) \<Longrightarrow> desc m = unitDesc c"
  by (auto simp: unitSamples_def unitSample_def)

lemma filter_unitSamples_same: "filter (\<lambda>m. desc m = unitDesc c) (unitSamples c units) = unitSamples c units"
  by (simp add: desc_unitSamples)

lemma filter_unitSamples_other:
  "unitDesc c \<noteq> systemRunningDesc c \<Longrightarrow>
   filter (\<lambda>m. desc m = systemRunningDesc c) (unitSamples c units) = []"
  by (auto simp: filter_empty_conv dest: desc_unitSamples)

lemma labels_unitSamples:
  "map labelValues (unitSamples c units) =
     concat (map (\<lambda>unit. map (\<lambda>stateName. [Name unit, stateName]) unitStatesName) units)"
  by (induction units) (simp_all add: unitSamples_def unitSample_def)

lemma emittedUnitStates_listed:
  assumes "collector w = fst (NewSystemdCollector ns)"
    and "New_result d (next_conn w) = None"
    and "ListUnits_result d (next_conn w) = (units, None)"
  shows "emittedUnitStates w (snd (Update d w)) = unitSamples (collector w) units"
proof -
  have wf: "wellFormed (collector w)"
    by (simp add: assms(1) constructed_wellFormed)
  have ne: "unitDesc (collector w) \<noteq> systemRunningDesc (collector w)"
    by (simp add: assms(1) constructed_descs_differ)
  from Update_listed [OF wf assms(2,3)] obtain rest where
    c: "ch (snd (Update d w)) = ch w @ unitSamples (collector w) units @ rest"
    and r: "rest = [] \<or> (\<exists>st. rest = [systemSample (collector w) st])"
    by blast
  have "filter (\<lambda>m. desc m = unitDesc (collector w)) rest = []"
    using r ne by (auto simp: systemSample_def)
  then show ?thesis
    by (simp add: emittedUnitStates_def emitted_append [OF c] filter_unitSamples_same)
qed

lemma one_hot:
  assumes "ActiveState unit \<in> set unitStatesName"
  shows "length (filter (\<lambda>m. val m = 1) (map (unitSample c unit) unitStatesName)) = 1"
proof -
  from assms consider "ActiveState unit = ''active''" | "ActiveState unit = ''activating''"
    | "ActiveState unit = ''deactivating''" | "ActiveState unit = ''inactive''"
    | "ActiveState unit = ''failed''"
    by (auto simp: unitStatesName_def)
  then show ?thesis
    by cases (simp_all add: unitStatesName_def unitSample_def)
qed

lemma all_zero:
  assumes "ActiveState unit \<notin> set unitStatesName"
  shows "map val (map (unitSample c unit) unitStatesName) = [0, 0, 0, 0, 0]"
  using assms by (auto simp: unitStatesName_def unitSample_def)

subsection \<open>What a run leaves untouched\<close>

text \<open>
  These hold for every collector, also on the paths that end in a panic.
\<close>

lemma collectUnitStates_frame:
  "collectUnitStates unit names w = (r, w') \<Longrightarrow> \<exists>ms. w' = w\<lparr>ch := ch w @ ms\<rparr>"
proof (induction names arbitrary: w)
  case Nil
  then have "w' = w\<lparr>ch := ch w @ []\<rparr>" by simp
  then show ?case ..
next
  case (Cons stateName rest)
  show ?case
  proof (cases "MustNewConstMetric (unitDesc (collector w)) GaugeValue
                  (if stateName = ActiveState unit then 1 else 0) [Name unit, stateName]")
    case None
    with Cons.prems have "w' = w\<lparr>ch := ch w @ []\<rparr>" by (simp add: Let_def)
    then show ?thesis ..
  next
    case (Some m)
    with Cons.prems have "collectUnitStates unit rest (send m w) = (r, w')"
      by (simp add: Let_def)
    from Cons.IH [OF this] obtain ms where "w' = (send m w)\<lparr>ch := ch (send m w) @ ms\<rparr>" ..
    then have "w' = w\<lparr>ch := ch w @ (m # ms)\<rparr>"
      by (simp add: send_def)
    then show ?thesis ..
  qed
qed

lemma collectUnitStatusMetrics_frame:
  "collectUnitStatusMetrics units w = (r, w') \<Longrightarrow> \<exists>ms. w' = w\<lparr>ch := ch w @ ms\<rparr>"
proof (induction units arbitrary: w)
  case Nil
  then have "w' = w\<lparr>ch := ch w @ []\<rparr>" by simp
  then show ?case ..
next
  case (Cons unit units)
  obtain r1 w1 where u: "collectUnitStates unit unitStatesName w = (r1, w1)"
    by (cases "collectUnitStates unit unitStatesName w")
  from collectUnitStates_frame [OF u] obtain ms1 where w1: "w1 = w\<lparr>ch := ch w @ ms1\<rparr>" ..
  show ?case
  proof (cases r1)
    case Panic
    with Cons.prems u have "w' = w1" by simp
    with w1 have "w' = w\<lparr>ch := ch w @ ms1\<rparr>" by simp
    then show ?thesis ..
  next
    case (Return x)
    with Cons.prems u have "collectUnitStatusMetrics units w1 = (r, w')" by simp
    from Cons.IH [OF this] obtain ms where "w' = w1\<lparr>ch := ch w1 @ ms\<rparr>" ..
    with w1 have "w' = w\<lparr>ch := ch w @ (ms1 @ ms)\<rparr>" by simp
    then show ?thesis ..
  qed
qed

lemma collectSystemState_frame:
  "collectSystemState systemState w = (r, w') \<Longrightarrow> \<exists>ms. w' = w\<lparr>ch := ch w @ ms\<rparr>"
  by (auto simp: collectSystemState_def send_def Let_def split: option.splits
           intro: exI [of _ "[]"])

lemma listUnits_frame:
  "listUnits d w = (r, w') \<Longrightarrow>
     \<exists>es. w' = w\<lparr>dbus_log := dbus_log w @ es, next_conn := Suc (next_conn w)\<rparr> \<and>
          (es = [NewFailed (next_conn w)] \<and> snd r \<noteq> None \<or>
           es = [Opened (next_conn w), ListUnitsCalled (next_conn w), Closed (next_conn w)])"
  by (cases "New_result d (next_conn w)")
     (auto simp: listUnits_open_fails listUnits_opened)

lemma getSystemState_frame:
  "getSystemState d w = (r, w') \<Longrightarrow>
     \<exists>es. w' = w\<lparr>dbus_log := dbus_log w @ es, next_conn := Suc (next_conn w)\<rparr> \<and>
          (es = [NewFailed (next_conn w)] \<or>
           es = [Opened (next_conn w), GetManagerPropertyCalled (next_conn w) ''SystemState'',
                 Closed (next_conn w)])"
  by (cases "New_result d (next_conn w)")
     (auto simp: getSystemState_open_fails getSystemState_opened)

lemma Update_frame:
  "\<exists>ms es n. snd (Update d w) = w\<lparr>ch := ch w @ ms, dbus_log := dbus_log w @ es, next_conn := n\<rparr> \<and>
             es \<in> set (runEvents (next_conn w))"
proof -
  obtain r1 w1 where l: "listUnits d w = (r1, w1)"
    by (cases "listUnits d w")
  obtain units err where r1: "r1 = (units, err)"
    by (cases r1)
  from listUnits_frame [OF l] obtain es1 where
    w1: "w1 = w\<lparr>dbus_log := dbus_log w @ es1, next_conn := Suc (next_conn w)\<rparr>"
    and es1: "es1 = [NewFailed (next_conn w)] \<and> snd r1 \<noteq> None \<or>
              es1 = [Opened (next_conn w), ListUnitsCalled (next_conn w), Closed (next_conn w)]"
    by blast
  show ?thesis
  proof (cases err)
    case (Some e)
    with l r1 have "snd (Update d w) = w1"
      by (simp add: Update_def)
    with w1 es1 have "snd (Update d w) = w\<lparr>ch := ch w @ [], dbus_log := dbus_log w @ es1, next_conn := Suc (next_conn w)\<rparr> \<and> es1 \<in> set (runEvents (next_conn w))"
      by (auto simp: runEvents_def)
    then show ?thesis by blast
  next
    case None
    with es1 r1 have es1': "es1 = [Opened (next_conn w), ListUnitsCalled (next_conn w), Closed (next_conn w)]"
      by simp
    obtain r2 w2 where c: "collectUnitStatusMetrics units w1 = (r2, w2)"
      by (cases "collectUnitStatusMetrics units w1")
    from collectUnitStatusMetrics_frame [OF c] obtain ms where w2: "w2 = w1\<lparr>ch := ch w1 @ ms\<rparr>" ..
    show ?thesis
    proof (cases r2)
      case Panic
      with l r1 None c have "snd (Update d w) = w2"
        by (simp add: Update_def)
      with w1 w2 es1' have "snd (Update d w) = w\<lparr>ch := ch w @ ms, dbus_log := dbus_log w @ es1, next_conn := Suc (next_conn w)\<rparr> \<and> es1 \<in> set (runEvents (next_conn w))"
        by (simp add: runEvents_def)
      then show ?thesis by blast
    next
      case (Return x)
      obtain r3 w3 where g: "getSystemState d w2 = (r3, w3)"
        by (cases "getSystemState d w2")
      obtain systemState err3 where r3: "r3 = (systemState, err3)"
        by (cases r3)
      from getSystemState_frame [OF g] obtain es3 where
        w3: "w3 = w2\<lparr>dbus_log := dbus_log w2 @ es3, next_conn := Suc (next_conn w2)\<rparr>"
        and es3: "es3 = [NewFailed (next_conn w2)] \<or>
           es3 = [Opened (next_conn w2), GetManagerPropertyCalled (next_conn w2) ''SystemState'',
                 Closed (next_conn w2)]"
        by blast
      have n2: "next_conn w2 = Suc (next_conn w)"
        by (simp add: w1 w2)
      have es: "es1 @ es3 \<in> set (runEvents (next_conn w))"
        using es1' es3 n2 by (auto simp: runEvents_def)
      obtain r4 w4 where s: "collectSystemState systemState w3 = (r4, w4)"
        by (cases "collectSystemState systemState w3")
      from collectSystemState_frame [OF s] obtain ms4 where w4: "w4 = w3\<lparr>ch := ch w3 @ ms4\<rparr>" ..
      have "snd (Update d w) = w3 \<or> snd (Update d w) = w4"
        using l r1 None c Return g r3 s
        by (cases err3; cases r4) (simp_all add: Update_def)
      then have "snd (Update d w) = w\<lparr>ch := ch w @ ms, dbus_log := dbus_log w @ (es1 @ es3), next_conn := Suc (Suc (next_conn w))\<rparr>
          \<or> snd (Update d w) = w\<lparr>ch := ch w @ (ms @ ms4), dbus_log := dbus_log w @ (es1 @ es3), next_conn := Suc (Suc (next_conn w))\<rparr>"
        by (auto simp: w1 w2 w3 w4)
      with es show ?thesis by blast
    qed
  qed
qed

lemma Update_ch_extends: "ch (snd (Update d w)) = ch w @ emitted w (snd (Update d w))"
proof -
  from Update_frame [of d w] obtain ms es n where
    "snd (Update d w) = w\<lparr>ch := ch w @ ms, dbus_log := dbus_log w @ es, next_conn := n\<rparr>"
    by blast
  then have "ch (snd (Update d w)) = ch w @ ms" by simp
  then show ?thesis by (simp add: emitted_def)
qed

lemma scoped_runEvents: "es \<in> set (runEvents k) \<Longrightarrow> scoped es \<and> distinct (queriedOn es)"
  by (auto simp: runEvents_def)

lemma queries_runEvents:
  "es \<in> set (runEvents k) \<Longrightarrow> length (queriedOn es) \<le> 2 \<and> (\<forall>c\<in>set (queriedOn es). k \<le> c)"
  by (auto simp: runEvents_def)

subsection \<open>The example inputs\<close>

lemmas example_defs = freshWorld_def respond_def exampleUnits_def oddUnits_def healthyClient_def
  oddClient_def noBusClient_def listFailsClient_def stateFailsClient_def emptyClient_def

lemma healthy_facts:
  "collector freshWorld = fst (NewSystemdCollector ''node'')"
  "New_result healthyClient (next_conn freshWorld) = None"
  "ListUnits_result healthyClient (next_conn freshWorld) = (exampleUnits, None)"
  "New_result healthyClient (Suc (next_conn freshWorld)) = None"
  "GetManagerProperty_result healthyClient (Suc (next_conn freshWorld)) ''SystemState'' =
     (quoted_running, None)"
  by (simp_all add: example_defs)

lemma healthy_events:
  "newEvents freshWorld (snd (Update healthyClient freshWorld)) =
     [Opened 0, ListUnitsCalled 0, Closed 0,
      Opened 1, GetManagerPropertyCalled 1 ''SystemState'', Closed 1]"
proof -
  have wf: "wellFormed (collector freshWorld)"
    by (simp add: healthy_facts(1) constructed_wellFormed)
  show ?thesis
    by (simp add: Update_succeeds [OF wf healthy_facts(2-5)] newEvents_def)
       (simp add: freshWorld_def)
qed

section \<open>The properties\<close>

text \<open>
  Where a property speaks of the samples of a run, the collector is one that
  \<^verbatim>\<open>NewSystemdCollector\<close> has built (for any namespace), and the run starts in any
  world \<open>w\<close> with any client \<open>d\<close>; \<open>next_conn w\<close> is the number the first connection
  of the run gets.
\<close>

text \<open>
  C1. When the listing of the units succeeds, \<^verbatim>\<open>Update\<close> sends five unit-state
  samples for every unit of the list, 5 times the number of units in all. The five samples of
  a unit carry the labels (unit name, state name) for the state names active, activating,
  deactivating, inactive, failed, in this order, and the value of each is 1 if its state name
  equals the unit's \<^verbatim>\<open>ActiveState\<close> and 0 otherwise. When the unit's state is one of the
  five names, exactly one of the five samples has the value 1.
\<close>

theorem unit_state_samples_one_hot:
  assumes "collector w = fst (NewSystemdCollector ns)"
    and "New_result d (next_conn w) = None"
    and "ListUnits_result d (next_conn w) = (units, None)"
  shows "length (emittedUnitStates w (snd (Update d w))) = 5 * length units \<and>
    (\<forall>i<length units.
       map labelValues (samplesOfUnit i (emittedUnitStates w (snd (Update d w)))) =
         map (\<lambda>stateName. [Name (units ! i), stateName])
           [''active'', ''activating'', ''deactivating'', ''inactive'', ''failed''] \<and>
       map val (samplesOfUnit i (emittedUnitStates w (snd (Update d w)))) =
         map (\<lambda>stateName. if stateName = ActiveState (units ! i) then 1 else 0)
           [''active'', ''activating'', ''deactivating'', ''inactive'', ''failed''] \<and>
       (ActiveState (units ! i) \<in>
          {''active'', ''activating'', ''deactivating'', ''inactive'', ''failed''} \<longrightarrow>
        length (filter (\<lambda>m. val m = 1)
                  (samplesOfUnit i (emittedUnitStates w (snd (Update d w))))) = 1))"
proof -
  let ?E = "emittedUnitStates w (snd (Update d w))"
  have E: "?E = unitSamples (collector w) units"
    by (rule emittedUnitStates_listed [OF assms])
  have total: "length ?E = 5 * length units"
    by (simp add: E length_unitSamples)
  have each: "map labelValues (samplesOfUnit i ?E) =
         map (\<lambda>stateName. [Name (units ! i), stateName])
           [''active'', ''activating'', ''deactivating'', ''inactive'', ''failed''] \<and>
       map val (samplesOfUnit i ?E) =
         map (\<lambda>stateName. if stateName = ActiveState (units ! i) then 1 else 0)
           [''active'', ''activating'', ''deactivating'', ''inactive'', ''failed''] \<and>
       (ActiveState (units ! i) \<in>
          {''active'', ''activating'', ''deactivating'', ''inactive'', ''failed''} \<longrightarrow>
        length (filter (\<lambda>m. val m = 1) (samplesOfUnit i ?E)) = 1)"
    if i: "i < length units" for i
  proof -
    have B: "samplesOfUnit i ?E = map (unitSample (collector w) (units ! i)) unitStatesName"
      by (simp add: E samplesOfUnit_unitSamples [OF i])
    have l: "map labelValues (samplesOfUnit i ?E) =
         map (\<lambda>stateName. [Name (units ! i), stateName])
           [''active'', ''activating'', ''deactivating'', ''inactive'', ''failed'']"
      by (simp add: B unitStatesName_def unitSample_def)
    have v: "map val (samplesOfUnit i ?E) =
         map (\<lambda>stateName. if stateName = ActiveState (units ! i) then 1 else 0)
           [''active'', ''activating'', ''deactivating'', ''inactive'', ''failed'']"
      by (simp add: B unitStatesName_def unitSample_def)
    have h: "length (filter (\<lambda>m. val m = 1) (samplesOfUnit i ?E)) = 1"
      if "ActiveState (units ! i) \<in>
          {''active'', ''activating'', ''deactivating'', ''inactive'', ''failed''}"
    proof -
      from that have "ActiveState (units ! i) \<in> set unitStatesName"
        by (simp add: unitStatesName_def)
      then show ?thesis
        unfolding B by (rule one_hot)
    qed
    from l v h show ?thesis by blast
  qed
  from total each show ?thesis by blast
qed

theorem unit_state_samples_one_hot_witness:
  "collector freshWorld = fst (NewSystemdCollector ''node'') \<and>
   New_result healthyClient (next_conn freshWorld) = None \<and>
   ListUnits_result healthyClient (next_conn freshWorld) = (exampleUnits, None) \<and>
   length (emittedUnitStates freshWorld (snd (Update healthyClient freshWorld))) = 10 \<and>
   map val (samplesOfUnit 0 (emittedUnitStates freshWorld (snd (Update healthyClient freshWorld)))) =
     [1, 0, 0, 0, 0] \<and>
   map val (samplesOfUnit 1 (emittedUnitStates freshWorld (snd (Update healthyClient freshWorld)))) =
     [0, 0, 0, 0, 1] \<and>
   length (filter (\<lambda>m. val m = 1)
     (samplesOfUnit 1 (emittedUnitStates freshWorld (snd (Update healthyClient freshWorld))))) = 1"
proof -
  have h1: "collector freshWorld = fst (NewSystemdCollector ''node'')"
    by (simp add: example_defs)
  have h2: "New_result healthyClient (next_conn freshWorld) = None"
    by (simp add: example_defs)
  have h3: "ListUnits_result healthyClient (next_conn freshWorld) = (exampleUnits, None)"
    by (simp add: example_defs)
  note t = unit_state_samples_one_hot [OF h1 h2 h3]
  have n: "length (emittedUnitStates freshWorld (snd (Update healthyClient freshWorld))) = 10"
    using t by (simp add: exampleUnits_def)
  have u0: "map val (samplesOfUnit 0 (emittedUnitStates freshWorld (snd (Update healthyClient freshWorld)))) =
     [1, 0, 0, 0, 0]"
    using t [THEN conjunct2, rule_format, of 0] by (simp add: exampleUnits_def)
  have u1: "map val (samplesOfUnit 1 (emittedUnitStates freshWorld (snd (Update healthyClient freshWorld)))) =
     [0, 0, 0, 0, 1] \<and>
     length (filter (\<lambda>m. val m = 1)
     (samplesOfUnit 1 (emittedUnitStates freshWorld (snd (Update healthyClient freshWorld))))) = 1"
    using t [THEN conjunct2, rule_format, of 1] by (simp add: exampleUnits_def)
  from h1 h2 h3 n u0 u1 show ?thesis by simp
qed

text \<open>
  C2. When both queries succeed, \<^verbatim>\<open>Update\<close> sends exactly one system-running sample;
  its value is 1 if and only if the property string is the word running between two
  double-quote characters (9 characters), and 0 for every other string, the unquoted word
  running among them.
\<close>

theorem system_running_sample_value:
  assumes "collector w = fst (NewSystemdCollector ns)"
    and "New_result d (next_conn w) = None"
    and "ListUnits_result d (next_conn w) = (units, None)"
    and "New_result d (Suc (next_conn w)) = None"
    and "GetManagerProperty_result d (Suc (next_conn w)) ''SystemState'' = (systemState, None)"
  shows "(\<exists>m. emittedSystemRunning w (snd (Update d w)) = [m] \<and>
              (val m = 1 \<longleftrightarrow> systemState = CHR 0x22 # ''running'' @ [CHR 0x22]) \<and>
              (systemState \<noteq> CHR 0x22 # ''running'' @ [CHR 0x22] \<longrightarrow> val m = 0) \<and>
              (systemState = ''running'' \<longrightarrow> val m = 0)) \<and>
         length (CHR 0x22 # ''running'' @ [CHR 0x22]) = 9"
proof -
  have wf: "wellFormed (collector w)"
    by (simp add: assms(1) constructed_wellFormed)
  have ne: "unitDesc (collector w) \<noteq> systemRunningDesc (collector w)"
    by (simp add: assms(1) constructed_descs_differ)
  let ?m = "systemSample (collector w) systemState"
  have "ch (snd (Update d w)) = ch w @ (unitSamples (collector w) units @ [?m])"
    by (simp add: Update_succeeds [OF wf assms(2-5)])
  then have "emitted w (snd (Update d w)) = unitSamples (collector w) units @ [?m]"
    by (rule emitted_append)
  then have "emittedSystemRunning w (snd (Update d w)) = [?m]"
    by (simp add: emittedSystemRunning_def filter_unitSamples_other [OF ne] systemSample_def)
  moreover have "val ?m = 1 \<longleftrightarrow> systemState = CHR 0x22 # ''running'' @ [CHR 0x22]"
    by (simp add: systemSample_def quoted_running_def)
  moreover have "systemState \<noteq> CHR 0x22 # ''running'' @ [CHR 0x22] \<longrightarrow> val ?m = 0"
    by (simp add: systemSample_def quoted_running_def)
  moreover have "systemState = ''running'' \<longrightarrow> val ?m = 0"
    by (simp add: systemSample_def quoted_running_def)
  ultimately show ?thesis by simp
qed

theorem system_running_sample_value_witness:
  "collector freshWorld = fst (NewSystemdCollector ''node'') \<and>
   New_result healthyClient (next_conn freshWorld) = None \<and>
   ListUnits_result healthyClient (next_conn freshWorld) = (exampleUnits, None) \<and>
   New_result healthyClient (Suc (next_conn freshWorld)) = None \<and>
   GetManagerProperty_result healthyClient (Suc (next_conn freshWorld)) ''SystemState'' =
     (CHR 0x22 # ''running'' @ [CHR 0x22], None) \<and>
   map val (emittedSystemRunning freshWorld (snd (Update healthyClient freshWorld))) = [1] \<and>
   New_result oddClient (next_conn freshWorld) = None \<and>
   ListUnits_result oddClient (next_conn freshWorld) = (oddUnits, None) \<and>
   New_result oddClient (Suc (next_conn freshWorld)) = None \<and>
   GetManagerProperty_result oddClient (Suc (next_conn freshWorld)) ''SystemState'' =
     (''running'', None) \<and>
   map val (emittedSystemRunning freshWorld (snd (Update oddClient freshWorld))) = [0]"
proof -
  have h1: "collector freshWorld = fst (NewSystemdCollector ''node'')"
    by (simp add: example_defs)
  have h2: "New_result healthyClient (next_conn freshWorld) = None"
    by (simp add: example_defs)
  have h3: "ListUnits_result healthyClient (next_conn freshWorld) = (exampleUnits, None)"
    by (simp add: example_defs)
  have h4: "New_result healthyClient (Suc (next_conn freshWorld)) = None"
    by (simp add: example_defs)
  have h5: "GetManagerProperty_result healthyClient (Suc (next_conn freshWorld)) ''SystemState'' =
     (CHR 0x22 # ''running'' @ [CHR 0x22], None)"
    by (simp add: example_defs quoted_running_def)
  have a: "map val (emittedSystemRunning freshWorld (snd (Update healthyClient freshWorld))) = [1]"
    using system_running_sample_value [OF h1 h2 h3 h4 h5] by auto
  have o2: "New_result oddClient (next_conn freshWorld) = None"
    by (simp add: example_defs)
  have o3: "ListUnits_result oddClient (next_conn freshWorld) = (oddUnits, None)"
    by (simp add: example_defs)
  have o4: "New_result oddClient (Suc (next_conn freshWorld)) = None"
    by (simp add: example_defs)
  have o5: "GetManagerProperty_result oddClient (Suc (next_conn freshWorld)) ''SystemState'' =
     (''running'', None)"
    by (simp add: example_defs)
  have b: "map val (emittedSystemRunning freshWorld (snd (Update oddClient freshWorld))) = [0]"
    using system_running_sample_value [OF h1 o2 o3 o4 o5] by auto
  from h1 h2 h3 h4 h5 a o2 o3 o4 o5 b show ?thesis by simp
qed

text \<open>
  C3. When the connection for the listing cannot be opened, or the \<^verbatim>\<open>ListUnits\<close> query
  returns an error, \<^verbatim>\<open>Update\<close> sends nothing into the channel and returns an error whose
  message begins with \<^verbatim>\<open>couldn't get units states\<close>.
\<close>

theorem units_stage_failure:
  assumes "New_result d (next_conn w) \<noteq> None \<or> snd (ListUnits_result d (next_conn w)) \<noteq> None"
  shows "ch (snd (Update d w)) = ch w \<and>
         emitted w (snd (Update d w)) = [] \<and>
         (\<exists>msg. fst (Update d w) = Return (Some msg) \<and> prefix ''couldn't get units states'' msg)"
proof (cases "New_result d (next_conn w)")
  case (Some e)
  show ?thesis
    by (simp add: Update_units_open_fails [OF Some] emitted_def)
next
  case None
  with assms obtain units e where "ListUnits_result d (next_conn w) = (units, Some e)"
    by (cases "ListUnits_result d (next_conn w)") auto
  from Update_units_query_fails [OF None this] show ?thesis
    by (simp add: emitted_def)
qed

theorem units_stage_failure_witness:
  "New_result noBusClient (next_conn freshWorld) \<noteq> None \<and>
   ch (snd (Update noBusClient freshWorld)) = ch freshWorld \<and>
   prefix ''couldn't get units states'' (case fst (Update noBusClient freshWorld) of Return (Some msg) \<Rightarrow> msg | _ \<Rightarrow> []) \<and>
   snd (ListUnits_result listFailsClient (next_conn freshWorld)) \<noteq> None \<and>
   ch (snd (Update listFailsClient freshWorld)) = ch freshWorld \<and>
   prefix ''couldn't get units states'' (case fst (Update listFailsClient freshWorld) of Return (Some msg) \<Rightarrow> msg | _ \<Rightarrow> [])"
proof -
  have a: "New_result noBusClient (next_conn freshWorld) \<noteq> None"
    by (simp add: example_defs)
  have b: "snd (ListUnits_result listFailsClient (next_conn freshWorld)) \<noteq> None"
    by (simp add: example_defs)
  from a have a': "New_result noBusClient (next_conn freshWorld) \<noteq> None \<or>
      snd (ListUnits_result noBusClient (next_conn freshWorld)) \<noteq> None" ..
  from b have b': "New_result listFailsClient (next_conn freshWorld) \<noteq> None \<or>
      snd (ListUnits_result listFailsClient (next_conn freshWorld)) \<noteq> None" ..
  from units_stage_failure [OF a'] units_stage_failure [OF b'] a b
  show ?thesis by auto
qed

text \<open>
  C4. When the listing succeeds and the read of the system state fails (its connection
  cannot be opened, or the query returns an error), \<^verbatim>\<open>Update\<close> has sent 5 times the
  number of units samples, all of them unit-state samples and none a system-running sample;
  they stay in the channel behind what it held before; the error returned has a message that
  begins with \<^verbatim>\<open>couldn't get system state\<close>.
\<close>

theorem system_state_stage_failure:
  assumes "collector w = fst (NewSystemdCollector ns)"
    and "New_result d (next_conn w) = None"
    and "ListUnits_result d (next_conn w) = (units, None)"
    and "New_result d (Suc (next_conn w)) \<noteq> None \<or>
         snd (GetManagerProperty_result d (Suc (next_conn w)) ''SystemState'') \<noteq> None"
  shows "ch (snd (Update d w)) = ch w @ emitted w (snd (Update d w)) \<and>
         length (emitted w (snd (Update d w))) = 5 * length units \<and>
         emittedUnitStates w (snd (Update d w)) = emitted w (snd (Update d w)) \<and>
         emittedSystemRunning w (snd (Update d w)) = [] \<and>
         (\<exists>msg. fst (Update d w) = Return (Some msg) \<and> prefix ''couldn't get system state'' msg)"
proof -
  have wf: "wellFormed (collector w)"
    by (simp add: assms(1) constructed_wellFormed)
  have ne: "unitDesc (collector w) \<noteq> systemRunningDesc (collector w)"
    by (simp add: assms(1) constructed_descs_differ)
  have "\<exists>msg. Update d w =
          (Return (Some msg), snd (Update d w)) \<and> prefix ''couldn't get system state'' msg \<and>
          ch (snd (Update d w)) = ch w @ unitSamples (collector w) units"
  proof (cases "New_result d (Suc (next_conn w))")
    case (Some e)
    show ?thesis
      by (simp add: Update_state_open_fails [OF wf assms(2,3) Some])
  next
    case None
    with assms(4) obtain st e where
      "GetManagerProperty_result d (Suc (next_conn w)) ''SystemState'' = (st, Some e)"
      by (cases "GetManagerProperty_result d (Suc (next_conn w)) ''SystemState''") auto
    from Update_state_query_fails [OF wf assms(2,3) None this] show ?thesis
      by simp
  qed
  then obtain msg where r: "fst (Update d w) = Return (Some msg)"
    and p: "prefix ''couldn't get system state'' msg"
    and c: "ch (snd (Update d w)) = ch w @ unitSamples (collector w) units"
    by (metis fst_conv)
  have e: "emitted w (snd (Update d w)) = unitSamples (collector w) units"
    using c by (rule emitted_append)
  show ?thesis
    using r p c
    by (simp add: e emittedUnitStates_def emittedSystemRunning_def length_unitSamples
          filter_unitSamples_same filter_unitSamples_other [OF ne])
qed

theorem system_state_stage_failure_witness:
  "collector freshWorld = fst (NewSystemdCollector ''node'') \<and>
   New_result stateFailsClient (next_conn freshWorld) = None \<and>
   ListUnits_result stateFailsClient (next_conn freshWorld) = (exampleUnits, None) \<and>
   snd (GetManagerProperty_result stateFailsClient (Suc (next_conn freshWorld)) ''SystemState'') \<noteq> None \<and>
   length (emitted freshWorld (snd (Update stateFailsClient freshWorld))) = 10 \<and>
   emittedUnitStates freshWorld (snd (Update stateFailsClient freshWorld)) =
     emitted freshWorld (snd (Update stateFailsClient freshWorld)) \<and>
   emittedSystemRunning freshWorld (snd (Update stateFailsClient freshWorld)) = [] \<and>
   prefix ''couldn't get system state''
     (case fst (Update stateFailsClient freshWorld) of Return (Some msg) \<Rightarrow> msg | _ \<Rightarrow> [])"
proof -
  have h1: "collector freshWorld = fst (NewSystemdCollector ''node'')"
    by (simp add: example_defs)
  have h2: "New_result stateFailsClient (next_conn freshWorld) = None"
    by (simp add: example_defs)
  have h3: "ListUnits_result stateFailsClient (next_conn freshWorld) = (exampleUnits, None)"
    by (simp add: example_defs)
  have h4: "snd (GetManagerProperty_result stateFailsClient (Suc (next_conn freshWorld))
                   ''SystemState'') \<noteq> None"
    by (simp add: example_defs)
  then have h4': "New_result stateFailsClient (Suc (next_conn freshWorld)) \<noteq> None \<or>
      snd (GetManagerProperty_result stateFailsClient (Suc (next_conn freshWorld))
             ''SystemState'') \<noteq> None" ..
  have n: "length exampleUnits = 2"
    by (simp add: exampleUnits_def)
  from system_state_stage_failure [OF h1 h2 h3 h4'] h1 h2 h3 h4 n show ?thesis
    by auto
qed

text \<open>
  C5. For every unit whose \<^verbatim>\<open>ActiveState\<close> is none of the five state names, the five
  samples of the unit all have the value 0.
\<close>

theorem unknown_state_all_zero:
  assumes "collector w = fst (NewSystemdCollector ns)"
    and "New_result d (next_conn w) = None"
    and "ListUnits_result d (next_conn w) = (units, None)"
  shows "\<forall>i<length units.
           ActiveState (units ! i) \<notin>
             {''active'', ''activating'', ''deactivating'', ''inactive'', ''failed''} \<longrightarrow>
           map val (samplesOfUnit i (emittedUnitStates w (snd (Update d w)))) = [0, 0, 0, 0, 0]"
proof (intro allI impI)
  fix i
  assume i: "i < length units"
    and u: "ActiveState (units ! i) \<notin>
             {''active'', ''activating'', ''deactivating'', ''inactive'', ''failed''}"
  have B: "samplesOfUnit i (emittedUnitStates w (snd (Update d w))) =
             map (unitSample (collector w) (units ! i)) unitStatesName"
    by (simp add: emittedUnitStates_listed [OF assms] samplesOfUnit_unitSamples [OF i])
  from u have "ActiveState (units ! i) \<notin> set unitStatesName"
    by (simp add: unitStatesName_def)
  then show "map val (samplesOfUnit i (emittedUnitStates w (snd (Update d w)))) = [0, 0, 0, 0, 0]"
    unfolding B by (rule all_zero)
qed

theorem unknown_state_all_zero_witness:
  "collector freshWorld = fst (NewSystemdCollector ''node'') \<and>
   New_result oddClient (next_conn freshWorld) = None \<and>
   ListUnits_result oddClient (next_conn freshWorld) = (oddUnits, None) \<and>
   2 < length oddUnits \<and>
   ActiveState (oddUnits ! 2) = ''reloading'' \<and>
   map val (samplesOfUnit 2 (emittedUnitStates freshWorld (snd (Update oddClient freshWorld)))) =
     [0, 0, 0, 0, 0]"
proof -
  have h1: "collector freshWorld = fst (NewSystemdCollector ''node'')"
    by (simp add: example_defs)
  have h2: "New_result oddClient (next_conn freshWorld) = None"
    by (simp add: example_defs)
  have h3: "ListUnits_result oddClient (next_conn freshWorld) = (oddUnits, None)"
    by (simp add: example_defs)
  have i: "2 < length oddUnits" and s: "ActiveState (oddUnits ! 2) = ''reloading''"
    by (simp_all add: oddUnits_def)
  from unknown_state_all_zero [OF h1 h2 h3, rule_format, OF i] s
  have "map val (samplesOfUnit 2 (emittedUnitStates freshWorld (snd (Update oddClient freshWorld)))) =
     [0, 0, 0, 0, 0]"
    by simp
  with h1 h2 h3 i s show ?thesis by simp
qed

text \<open>
  C6. Two runs that get the same answers from the client, from whatever worlds they start,
  send the same sequence of samples and return the same value. When the listing succeeds,
  the unit-state samples come unit by unit in the order of the list returned, and within a
  unit in the order active, activating, deactivating, inactive, failed; the system-running
  sample, if there is one, comes after all of them.
\<close>

theorem emission_order_deterministic:
  assumes "collector w1 = fst (NewSystemdCollector ns)"
    and "collector w2 = fst (NewSystemdCollector ns)"
    and "New_result d1 (next_conn w1) = New_result d2 (next_conn w2)"
    and "ListUnits_result d1 (next_conn w1) = ListUnits_result d2 (next_conn w2)"
    and "New_result d1 (Suc (next_conn w1)) = New_result d2 (Suc (next_conn w2))"
    and "GetManagerProperty_result d1 (Suc (next_conn w1)) ''SystemState'' =
         GetManagerProperty_result d2 (Suc (next_conn w2)) ''SystemState''"
  shows "emitted w1 (snd (Update d1 w1)) = emitted w2 (snd (Update d2 w2)) \<and>
         fst (Update d1 w1) = fst (Update d2 w2) \<and>
         (\<forall>units. New_result d1 (next_conn w1) = None \<and>
                   ListUnits_result d1 (next_conn w1) = (units, None) \<longrightarrow>
            map labelValues (emittedUnitStates w1 (snd (Update d1 w1))) =
              concat (map (\<lambda>unit. map (\<lambda>stateName. [Name unit, stateName])
                             [''active'', ''activating'', ''deactivating'', ''inactive'', ''failed''])
                        units) \<and>
            emitted w1 (snd (Update d1 w1)) =
              emittedUnitStates w1 (snd (Update d1 w1)) @
              emittedSystemRunning w1 (snd (Update d1 w1)))"
proof -
  have wf: "wellFormed (collector w1)"
    by (simp add: assms(1) constructed_wellFormed)
  have ne: "unitDesc (collector w1) \<noteq> systemRunningDesc (collector w1)"
    by (simp add: assms(1) constructed_descs_differ)
  have c: "collector w2 = collector w1"
    by (simp add: assms(1,2))
  from Update_outcome_same [OF wf c assms(3-6)]
  have same: "emitted w1 (snd (Update d1 w1)) = emitted w2 (snd (Update d2 w2)) \<and>
         fst (Update d1 w1) = fst (Update d2 w2)"
    by simp
  have order: "map labelValues (emittedUnitStates w1 (snd (Update d1 w1))) =
              concat (map (\<lambda>unit. map (\<lambda>stateName. [Name unit, stateName])
                             [''active'', ''activating'', ''deactivating'', ''inactive'', ''failed''])
                        units) \<and>
            emitted w1 (snd (Update d1 w1)) =
              emittedUnitStates w1 (snd (Update d1 w1)) @
              emittedSystemRunning w1 (snd (Update d1 w1))"
    if n: "New_result d1 (next_conn w1) = None"
      and l: "ListUnits_result d1 (next_conn w1) = (units, None)" for units
  proof -
    have E: "emittedUnitStates w1 (snd (Update d1 w1)) = unitSamples (collector w1) units"
      by (rule emittedUnitStates_listed [OF assms(1) n l])
    from Update_listed [OF wf n l] obtain rest where
      ch: "ch (snd (Update d1 w1)) = ch w1 @ unitSamples (collector w1) units @ rest"
      and r: "rest = [] \<or> (\<exists>st. rest = [systemSample (collector w1) st])"
      by blast
    have em: "emitted w1 (snd (Update d1 w1)) = unitSamples (collector w1) units @ rest"
      using ch by (rule emitted_append)
    have "filter (\<lambda>m. desc m = systemRunningDesc (collector w1)) rest = rest"
      using r by (auto simp: systemSample_def)
    then have S: "emittedSystemRunning w1 (snd (Update d1 w1)) = rest"
      by (simp add: emittedSystemRunning_def em filter_unitSamples_other [OF ne])
    show ?thesis
      using labels_unitSamples [of "collector w1" units]
      by (simp add: E S em unitStatesName_def)
  qed
  from same order show ?thesis by blast
qed

theorem emission_order_deterministic_witness:
  "collector freshWorld = fst (NewSystemdCollector ''node'') \<and>
   collector laterWorld = fst (NewSystemdCollector ''node'') \<and>
   New_result healthyClient (next_conn freshWorld) = New_result healthyClient (next_conn laterWorld) \<and>
   ListUnits_result healthyClient (next_conn freshWorld) =
     ListUnits_result healthyClient (next_conn laterWorld) \<and>
   New_result healthyClient (Suc (next_conn freshWorld)) =
     New_result healthyClient (Suc (next_conn laterWorld)) \<and>
   GetManagerProperty_result healthyClient (Suc (next_conn freshWorld)) ''SystemState'' =
     GetManagerProperty_result healthyClient (Suc (next_conn laterWorld)) ''SystemState'' \<and>
   ch freshWorld \<noteq> ch laterWorld \<and>
   emitted freshWorld (snd (Update healthyClient freshWorld)) =
     emitted laterWorld (snd (Update healthyClient laterWorld)) \<and>
   map labelValues (emittedUnitStates freshWorld (snd (Update healthyClient freshWorld))) =
     [[''sshd.service'', ''active''], [''sshd.service'', ''activating''],
      [''sshd.service'', ''deactivating''], [''sshd.service'', ''inactive''],
      [''sshd.service'', ''failed''],
      [''cron.service'', ''active''], [''cron.service'', ''activating''],
      [''cron.service'', ''deactivating''], [''cron.service'', ''inactive''],
      [''cron.service'', ''failed'']]"
proof -
  have h1: "collector freshWorld = fst (NewSystemdCollector ''node'')"
    and h2: "collector laterWorld = fst (NewSystemdCollector ''node'')"
    and h3: "New_result healthyClient (next_conn freshWorld) =
             New_result healthyClient (next_conn laterWorld)"
    and h4: "ListUnits_result healthyClient (next_conn freshWorld) =
             ListUnits_result healthyClient (next_conn laterWorld)"
    and h5: "New_result healthyClient (Suc (next_conn freshWorld)) =
             New_result healthyClient (Suc (next_conn laterWorld))"
    and h6: "GetManagerProperty_result healthyClient (Suc (next_conn freshWorld)) ''SystemState'' =
             GetManagerProperty_result healthyClient (Suc (next_conn laterWorld)) ''SystemState''"
    and h7: "ch freshWorld \<noteq> ch laterWorld"
    by (simp_all add: example_defs laterWorld_def)
  note t = emission_order_deterministic [OF h1 h2 h3 h4 h5 h6]
  from t have a: "emitted freshWorld (snd (Update healthyClient freshWorld)) =
     emitted laterWorld (snd (Update healthyClient laterWorld))"
    by simp
  from t have "New_result healthyClient (next_conn freshWorld) = None \<and>
      ListUnits_result healthyClient (next_conn freshWorld) = (exampleUnits, None) \<longrightarrow>
      map labelValues (emittedUnitStates freshWorld (snd (Update healthyClient freshWorld))) =
        concat (map (\<lambda>unit. map (\<lambda>stateName. [Name unit, stateName])
                       [''active'', ''activating'', ''deactivating'', ''inactive'', ''failed''])
                  exampleUnits)"
    by blast
  with healthy_facts(2,3)
  have b: "map labelValues (emittedUnitStates freshWorld (snd (Update healthyClient freshWorld))) =
        concat (map (\<lambda>unit. map (\<lambda>stateName. [Name unit, stateName])
                       [''active'', ''activating'', ''deactivating'', ''inactive'', ''failed''])
                  exampleUnits)"
    by simp
  have c: "concat (map (\<lambda>unit. map (\<lambda>stateName. [Name unit, stateName])
                       [''active'', ''activating'', ''deactivating'', ''inactive'', ''failed''])
                  exampleUnits) =
     [[''sshd.service'', ''active''], [''sshd.service'', ''activating''],
      [''sshd.service'', ''deactivating''], [''sshd.service'', ''inactive''],
      [''sshd.service'', ''failed''],
      [''cron.service'', ''active''], [''cron.service'', ''activating''],
      [''cron.service'', ''deactivating''], [''cron.service'', ''inactive''],
      [''cron.service'', ''failed'']]"
    by (simp add: exampleUnits_def)
  from h1 h2 h3 h4 h5 h6 h7 a b [unfolded c] show ?thesis
    by (intro conjI)
qed

text \<open>
  C7. The D-Bus events of a run of \<^verbatim>\<open>Update\<close>, whatever the client answers: every
  connection that is opened carries exactly one query and is closed right after it, whether
  the query succeeds or fails; there are at most two queries, no two of them on the same
  connection, and each on a connection opened in this run.
\<close>

theorem connections_scoped_per_query:
  "dbus_log (snd (Update d w)) = dbus_log w @ newEvents w (snd (Update d w)) \<and>
   scoped (newEvents w (snd (Update d w))) \<and>
   distinct (queriedOn (newEvents w (snd (Update d w)))) \<and>
   length (queriedOn (newEvents w (snd (Update d w)))) \<le> 2 \<and>
   (\<forall>c\<in>set (queriedOn (newEvents w (snd (Update d w)))). next_conn w \<le> c)"
proof -
  from Update_frame [of d w] obtain ms es n where
    w': "snd (Update d w) = w\<lparr>ch := ch w @ ms, dbus_log := dbus_log w @ es, next_conn := n\<rparr>"
    and es: "es \<in> set (runEvents (next_conn w))"
    by blast
  from w' have l: "dbus_log (snd (Update d w)) = dbus_log w @ es"
    by simp
  then have n: "newEvents w (snd (Update d w)) = es"
    by (simp add: newEvents_def)
  from l n scoped_runEvents [OF es] queries_runEvents [OF es] show ?thesis
    by simp
qed

theorem connections_scoped_per_query_witness:
  "queriedOn (newEvents freshWorld (snd (Update healthyClient freshWorld))) = [0, 1] \<and>
   scoped (newEvents freshWorld (snd (Update healthyClient freshWorld))) \<and>
   distinct (queriedOn (newEvents freshWorld (snd (Update healthyClient freshWorld)))) \<and>
   next_conn freshWorld \<le> 0 \<and> next_conn freshWorld \<le> 1"
  using connections_scoped_per_query [of healthyClient freshWorld]
  by (simp add: healthy_events)

text \<open>
  C8. \<^verbatim>\<open>Update\<close> leaves the collector as it was, with both descriptors, on every path
  (success, either error, panic): the only parts of the world that differ afterwards are the
  channel and the state of the D-Bus client. What a first call left behind has no influence on
  the next call: it returns and sends what it would in the world as it was before the first
  call, given the same connection numbers.
\<close>

theorem Update_keeps_collector:
  "collector (snd (Update d w)) = collector w \<and>
   unitDesc (collector (snd (Update d w))) = unitDesc (collector w) \<and>
   systemRunningDesc (collector (snd (Update d w))) = systemRunningDesc (collector w) \<and>
   snd (Update d w) =
     w\<lparr>ch := ch (snd (Update d w)), dbus_log := dbus_log (snd (Update d w)),
       next_conn := next_conn (snd (Update d w))\<rparr> \<and>
   (collector w = fst (NewSystemdCollector ns) \<longrightarrow>
      fst (Update d' (snd (Update d w))) =
        fst (Update d' (w\<lparr>next_conn := next_conn (snd (Update d w))\<rparr>)) \<and>
      emitted (snd (Update d w)) (snd (Update d' (snd (Update d w)))) =
        emitted (w\<lparr>next_conn := next_conn (snd (Update d w))\<rparr>)
          (snd (Update d' (w\<lparr>next_conn := next_conn (snd (Update d w))\<rparr>))))"
proof -
  from Update_frame [of d w] obtain ms es n where
    w': "snd (Update d w) = w\<lparr>ch := ch w @ ms, dbus_log := dbus_log w @ es, next_conn := n\<rparr>"
    by blast
  have c: "collector (snd (Update d w)) = collector w"
    by (simp add: w')
  have f: "snd (Update d w) =
     w\<lparr>ch := ch (snd (Update d w)), dbus_log := dbus_log (snd (Update d w)),
       next_conn := next_conn (snd (Update d w))\<rparr>"
    by (simp add: w')
  have s: "fst (Update d' (snd (Update d w))) =
        fst (Update d' (w\<lparr>next_conn := next_conn (snd (Update d w))\<rparr>)) \<and>
      emitted (snd (Update d w)) (snd (Update d' (snd (Update d w)))) =
        emitted (w\<lparr>next_conn := next_conn (snd (Update d w))\<rparr>)
          (snd (Update d' (w\<lparr>next_conn := next_conn (snd (Update d w))\<rparr>)))"
    if "collector w = fst (NewSystemdCollector ns)"
  proof -
    let ?a = "snd (Update d w)" and ?b = "w\<lparr>next_conn := next_conn (snd (Update d w))\<rparr>"
    have wf: "wellFormed (collector ?a)"
      by (simp add: c that constructed_wellFormed)
    have "(fst (Update d' ?a), emitted ?a (snd (Update d' ?a))) =
          (fst (Update d' ?b), emitted ?b (snd (Update d' ?b)))"
      by (rule Update_outcome_same [OF wf]) (simp_all add: c)
    then show ?thesis by simp
  qed
  from c f s show ?thesis by simp
qed

theorem Update_keeps_collector_witness:
  "collector freshWorld = fst (NewSystemdCollector ''node'') \<and>
   collector (snd (Update stateFailsClient freshWorld)) = collector freshWorld \<and>
   fst (Update healthyClient (snd (Update stateFailsClient freshWorld))) =
     fst (Update healthyClient
            (freshWorld\<lparr>next_conn := next_conn (snd (Update stateFailsClient freshWorld))\<rparr>)) \<and>
   emitted (snd (Update stateFailsClient freshWorld))
       (snd (Update healthyClient (snd (Update stateFailsClient freshWorld)))) =
     emitted (freshWorld\<lparr>next_conn := next_conn (snd (Update stateFailsClient freshWorld))\<rparr>)
       (snd (Update healthyClient
               (freshWorld\<lparr>next_conn := next_conn (snd (Update stateFailsClient freshWorld))\<rparr>)))"
proof -
  have h: "collector freshWorld = fst (NewSystemdCollector ''node'')"
    by (simp add: example_defs)
  from Update_keeps_collector [of stateFailsClient freshWorld "''node''" healthyClient] h
  show ?thesis by blast
qed

text \<open>
  C9. When the client returns the empty list of units and the system state is read,
  \<^verbatim>\<open>Update\<close> returns \<^verbatim>\<open>nil\<close> and sends exactly one sample, the system-running
  sample.
\<close>

theorem empty_unit_list_is_no_error:
  assumes "collector w = fst (NewSystemdCollector ns)"
    and "New_result d (next_conn w) = None"
    and "ListUnits_result d (next_conn w) = ([], None)"
    and "New_result d (Suc (next_conn w)) = None"
    and "GetManagerProperty_result d (Suc (next_conn w)) ''SystemState'' = (systemState, None)"
  shows "fst (Update d w) = Return None \<and>
         length (emitted w (snd (Update d w))) = 1 \<and>
         emittedSystemRunning w (snd (Update d w)) = emitted w (snd (Update d w)) \<and>
         emittedUnitStates w (snd (Update d w)) = []"
proof -
  have wf: "wellFormed (collector w)"
    by (simp add: assms(1) constructed_wellFormed)
  have ne: "unitDesc (collector w) \<noteq> systemRunningDesc (collector w)"
    by (simp add: assms(1) constructed_descs_differ)
  note u = Update_succeeds [OF wf assms(2-5)]
  have r: "fst (Update d w) = Return None"
    by (simp add: u)
  have "ch (snd (Update d w)) = ch w @ [systemSample (collector w) systemState]"
    by (simp add: u unitSamples_def)
  then have e: "emitted w (snd (Update d w)) = [systemSample (collector w) systemState]"
    by (rule emitted_append)
  show ?thesis
    using ne by (simp add: r e emittedSystemRunning_def emittedUnitStates_def systemSample_def)
qed

theorem empty_unit_list_is_no_error_witness:
  "collector freshWorld = fst (NewSystemdCollector ''node'') \<and>
   New_result emptyClient (next_conn freshWorld) = None \<and>
   ListUnits_result emptyClient (next_conn freshWorld) = ([], None) \<and>
   New_result emptyClient (Suc (next_conn freshWorld)) = None \<and>
   GetManagerProperty_result emptyClient (Suc (next_conn freshWorld)) ''SystemState'' =
     (quoted_running, None) \<and>
   fst (Update emptyClient freshWorld) = Return None \<and>
   length (emitted freshWorld (snd (Update emptyClient freshWorld))) = 1 \<and>
   emittedUnitStates freshWorld (snd (Update emptyClient freshWorld)) = []"
proof -
  have h1: "collector freshWorld = fst (NewSystemdCollector ''node'')"
    and h2: "New_result emptyClient (next_conn freshWorld) = None"
    and h3: "ListUnits_result emptyClient (next_conn freshWorld) = ([], None)"
    and h4: "New_result emptyClient (Suc (next_conn freshWorld)) = None"
    and h5: "GetManagerProperty_result emptyClient (Suc (next_conn freshWorld)) ''SystemState'' =
     (quoted_running, None)"
    by (simp_all add: example_defs)
  from empty_unit_list_is_no_error [OF h1 h2 h3 h4 h5] h1 h2 h3 h4 h5 show ?thesis
    by simp
qed



end
